theory Spec2Isabelle
  imports Main
begin

section \<open>JavaScript values and strings\<close>

text \<open>
  The exporter handles untyped payloads (\<^verbatim>\<open>input\<close>, \<^verbatim>\<open>output\<close>, \<^verbatim>\<open>metadata\<close> values,
  \<^verbatim>\<open>errorInfo.details\<close>), so the embedding carries a datatype of JavaScript values.
  Numbers are integers here: the code looks at a number only through its truthiness
  and through its use as a property key. \<^verbatim>\<open>undefined\<close> as the value of a property that
  exists is \<open>JUndefined\<close>; a property that does not exist is \<open>None\<close> of an option.
\<close>

datatype jsval =
    JUndefined
  | JNull
  | JBool bool
  | JNum int
  | JStr string
  | JArr "jsval list"
  | JObj "(string \<times> jsval) list"

text \<open>What \<^verbatim>\<open>if (v)\<close> and \<^verbatim>\<open>!v\<close> test.\<close>

fun truthy :: "jsval \<Rightarrow> bool" where
  "truthy JUndefined = False"
| "truthy JNull = False"
| "truthy (JBool b) = b"
| "truthy (JNum n) = (n \<noteq> 0)"
| "truthy (JStr s) = (s \<noteq> [])"
| "truthy (JArr _) = True"
| "truthy (JObj _) = True"

text \<open>\<^verbatim>\<open>typeof v === 'object'\<close>: arrays, objects and \<^verbatim>\<open>null\<close>.\<close>

fun typeofObject :: "jsval \<Rightarrow> bool" where
  "typeofObject JNull = True"
| "typeofObject (JArr _) = True"
| "typeofObject (JObj _) = True"
| "typeofObject _ = False"

text \<open>
  A string is a list of HOL characters, one for each character of the JavaScript string.
  A HOL \<open>char\<close> is a code point from 0 to 255: ASCII and the Latin-1 supplement. On
  these characters \<^verbatim>\<open>String.prototype.toLowerCase\<close> works character by character: the
  capital letters, which are A to Z (65 to 90) and U+00C0 to U+00DE (192 to 222) without
  the multiplication sign U+00D7 (215), go to the character 32 places further on, their
  small letter; every other character stays.
\<close>

definition upperLetters :: string where
  "upperLetters = ''ABCDEFGHIJKLMNOPQRSTUVWXYZ''"

definition lowerLetters :: string where
  "lowerLetters = ''abcdefghijklmnopqrstuvwxyz''"

definition digitChars :: string where
  "digitChars = ''0123456789''"

definition isUpperCaseCode :: "nat \<Rightarrow> bool" where
  "isUpperCaseCode n \<longleftrightarrow> (65 \<le> n \<and> n \<le> 90) \<or> (192 \<le> n \<and> n \<le> 222 \<and> n \<noteq> 215)"

definition toLowerCaseChar :: "char \<Rightarrow> char" where
  "toLowerCaseChar c =
     (if isUpperCaseCode (of_char c) then char_of (of_char c + (32 :: nat)) else c)"

definition toLowerCase :: "string \<Rightarrow> string" where
  "toLowerCase s = map toLowerCaseChar s"

text \<open>
  A number as a string, where the number is an integer of at most \<open>2^53\<close> in magnitude:
  its decimal numeral, with a minus sign when it is negative. \<open>readDecimal\<close> reads a
  numeral back and serves to say that \<open>decimal\<close> is the numeral.
\<close>

fun decimal :: "nat \<Rightarrow> string" where
  "decimal n =
     (if n < 10 then [digitChars ! n] else decimal (n div 10) @ [digitChars ! (n mod 10)])"

definition numberString :: "int \<Rightarrow> string" where
  "numberString n = (if n < 0 then ''-'' @ decimal (nat (- n)) else decimal (nat n))"


section \<open>Provider normalisation (otel-span.ts, PROVIDER_ALIASES and normalizeProvider)\<close>

text \<open>The table, in the order of the object literal (\<^verbatim>\<open>Object.entries\<close> keeps it).\<close>

definition PROVIDER_ALIASES :: "(string \<times> string list) list" where
  "PROVIDER_ALIASES =
    [(''anthropic'', [''anthropic'', ''claude'']),
     (''aws.bedrock'', [''awsbedrock'', ''bedrock'', ''amazonbedrock'']),
     (''azure.ai.inference'', [''azureaiinference'', ''azureinference'']),
     (''azure.ai.openai'', [''azureaiopenai'', ''azureopenai'', ''msopenai'', ''microsoftopenai'']),
     (''cohere'', [''cohere'']),
     (''deepseek'', [''deepseek'']),
     (''gcp.gemini'', [''gcpgemini'', ''gemini'']),
     (''gcp.gen_ai'', [''gcpgenai'', ''googlegenai'', ''googlegenai'', ''googleai'']),
     (''gcp.vertex_ai'', [''gcpvertexai'', ''vertexai'']),
     (''groq'', [''groq'']),
     (''ibm.watsonx.ai'', [''ibmwatsonxai'', ''watsonx'', ''watsonxai'']),
     (''mistral_ai'', [''mistral'', ''mistralai'']),
     (''openai'', [''openai'', ''oai'']),
     (''perplexity'', [''perplexity'', ''pplx'']),
     (''x_ai'', [''xai'', ''x-ai'', ''x_ai'', ''x.com ai''])]"

text \<open>\<^verbatim>\<open>input.toLowerCase().replace(/[^a-z0-9]/g, "")\<close>\<close>

definition normalizeProviderString :: "string \<Rightarrow> string" where
  "normalizeProviderString input =
     filter (\<lambda>c. c \<in> set (lowerLetters @ digitChars)) (toLowerCase input)"

text \<open>The inner loop: does some alias of one table entry equal the token?\<close>

fun aliasMatches :: "string \<Rightarrow> string list \<Rightarrow> bool" where
  "aliasMatches normalized [] = False"
| "aliasMatches normalized (alias # aliases) =
     (if normalized = alias then True else aliasMatches normalized aliases)"

text \<open>The outer loop: the canonical name of the first entry with a matching alias.\<close>

fun lookupAliases :: "string \<Rightarrow> (string \<times> string list) list \<Rightarrow> string option" where
  "lookupAliases normalized [] = None"
| "lookupAliases normalized ((canonical, aliases) # entries) =
     (if aliasMatches normalized aliases then Some canonical
      else lookupAliases normalized entries)"

definition normalizeProvider :: "string \<Rightarrow> string" where
  "normalizeProvider providerName =
     (case lookupAliases (normalizeProviderString providerName) PROVIDER_ALIASES of
        Some canonical \<Rightarrow> canonical
      | None \<Rightarrow> toLowerCase providerName)"


section \<open>Exported spans: the input (types of @mastra/core/observability)\<close>

text \<open>
  The type declarations live in another package; the records below hold the fields this
  exporter reads, optional where the code treats them as optional. A \<^verbatim>\<open>Date\<close> is its
  \<^verbatim>\<open>getTime()\<close> value, an integer count of milliseconds. Any member of the \<^verbatim>\<open>SpanType\<close>
  enum besides the five the exporter names is \<open>OTHER\<close>, with the enum's string value.
\<close>

datatype SpanType =
    MODEL_GENERATION
  | TOOL_CALL
  | MCP_TOOL_CALL
  | AGENT_RUN
  | WORKFLOW_RUN
  | OTHER string

record UsageStats =
  inputTokens :: "int option"
  promptTokens :: "int option"
  outputTokens :: "int option"
  completionTokens :: "int option"
  reasoningTokens :: "int option"
  cachedInputTokens :: "int option"

record ModelParameters =
  temperature :: "int option"
  maxOutputTokens :: "int option"
  topP :: "int option"
  topK :: "int option"
  presencePenalty :: "int option"
  frequencyPenalty :: "int option"
  stopSequences :: "string list option"
  seed :: "int option"

record ModelGenerationAttributes =
  model :: "string option"
  provider :: "string option"
  usage :: "UsageStats option"
  parameters :: "ModelParameters option"
  finishReason :: "string option"
  responseModel :: "string option"
  responseId :: "string option"
  serverAddress :: "string option"
  serverPort :: "int option"

text \<open>
  \<^verbatim>\<open>ToolCallAttributes | MCPToolCallAttributes\<close>, as the code reads the union: one object
  with the tool id and, by kind, the MCP server or the tool description.
\<close>

record ToolCallAttributes =
  toolId :: "string option"
  mcpServer :: "string option"
  toolDescription :: "string option"

record AgentRunAttributes =
  agentId :: "string option"
  agentName :: "string option"
  conversationId :: "string option"
  maxSteps :: "int option"
  availableTools :: "jsval option"
  instructions :: "string option"

record WorkflowRunAttributes =
  workflowId :: "string option"

datatype SpanAttributes =
    ModelGeneration ModelGenerationAttributes
  | ToolCall ToolCallAttributes
  | AgentRun AgentRunAttributes
  | WorkflowRun WorkflowRunAttributes
  | OtherAttributes

record ErrorInfo =
  message :: string
  id_error :: "string option"
  domain :: "string option"
  category :: "string option"
  details :: "(string \<rightharpoonup> jsval) option"

record ExportedSpan =
  id_span :: string
  traceId :: string
  parentSpanId :: "string option"
  type :: SpanType
  name :: string
  startTime :: int
  endTime :: "int option"
  input :: "jsval option"
  output_span :: "jsval option"
  attributes :: "SpanAttributes option"
  errorInfo :: "ErrorInfo option"
  metadata :: "(string \<times> jsval) list option"

text \<open>
  The casts \<^verbatim>\<open>span.attributes as ModelGenerationAttributes\<close> and the like. TypeScript
  does not check them; a span's attributes have the shape that belongs to its type, and
  on such spans the cast is the projection below.
\<close>

fun asModelGenerationAttributes :: "SpanAttributes option \<Rightarrow> ModelGenerationAttributes option" where
  "asModelGenerationAttributes (Some (ModelGeneration a)) = Some a"
| "asModelGenerationAttributes _ = None"

fun asToolCallAttributes :: "SpanAttributes option \<Rightarrow> ToolCallAttributes option" where
  "asToolCallAttributes (Some (ToolCall a)) = Some a"
| "asToolCallAttributes _ = None"

fun asAgentRunAttributes :: "SpanAttributes option \<Rightarrow> AgentRunAttributes option" where
  "asAgentRunAttributes (Some (AgentRun a)) = Some a"
| "asAgentRunAttributes _ = None"

fun asWorkflowRunAttributes :: "SpanAttributes option \<Rightarrow> WorkflowRunAttributes option" where
  "asWorkflowRunAttributes (Some (WorkflowRun a)) = Some a"
| "asWorkflowRunAttributes _ = None"

section \<open>What the exporter takes from its environment\<close>

text \<open>
  Built-ins and imports whose code is elsewhere: the string value of a \<^verbatim>\<open>SpanType\<close>
  member, the Unicode classes \<^verbatim>\<open>\p{L}\<close> and \<^verbatim>\<open>\p{N}\<close> of the regular expression engine,
  \<^verbatim>\<open>JSON.stringify\<close>, the conversion of a value that is not a string to a property key,
  and \<^verbatim>\<open>convertMastraMessagesToGenAIMessages\<close> of gen-ai-messages.
\<close>

record host =
  typeValue :: "SpanType \<Rightarrow> string"
  unicodeLetter :: "char \<Rightarrow> bool"
  unicodeNumber :: "char \<Rightarrow> bool"
  JSON_stringify :: "jsval \<Rightarrow> string"
  toStringValue :: "jsval \<Rightarrow> string"
  convertMastraMessagesToGenAIMessages :: "string \<Rightarrow> jsval"

section \<open>Span kind, time, name (otel-span.ts)\<close>

datatype SpanKind = INTERNAL | SERVER | CLIENT | PRODUCER | CONSUMER

fun getSpanKind :: "SpanType \<Rightarrow> SpanKind" where
  "getSpanKind MODEL_GENERATION = CLIENT"
| "getSpanKind MCP_TOOL_CALL = CLIENT"
| "getSpanKind _ = INTERNAL"

type_synonym HrTime = "int \<times> int"

text \<open>
  JavaScript's \<^verbatim>\<open>%\<close> on integers: the remainder of the truncating division, with the
  sign of the dividend. \<^verbatim>\<open>Math.floor(ms / 1000)\<close> is \<open>ms div 1000\<close>, which rounds down.
\<close>

definition js_rem :: "int \<Rightarrow> int \<Rightarrow> int" where
  "js_rem a b = sgn a * (\<bar>a\<bar> mod \<bar>b\<bar>)"

text \<open>
  The difference of two time values, \<^verbatim>\<open>a - b\<close>. The time value of a \<^verbatim>\<open>Date\<close> is an
  integer of at most 8,640,000,000,000,000 in magnitude, so a difference is below \<open>2^54\<close>
  in magnitude. A number holds every integer up to \<open>2^53\<close> and, from there to \<open>2^54\<close>,
  the even ones: the subtraction is exact unless the difference is odd and beyond
  \<open>2^53\<close>, and then it gives the even neighbour that is a multiple of 4 (round to
  nearest, ties to the even significand). Every other operation of the time formulas
  is exact on the values it meets.
\<close>

definition js_minus :: "int \<Rightarrow> int \<Rightarrow> int" where
  "js_minus a b =
     (let d = a - b
      in if \<bar>d\<bar> \<le> 2 ^ 53 \<or> even d then d
         else if d mod 4 = 1 then d - 1
         else d + 1)"

definition dateToHrTime :: "int \<Rightarrow> HrTime" where
  "dateToHrTime ms =
     (let seconds = ms div 1000;
          nanoseconds = js_rem ms 1000 * 1000000
      in (seconds, nanoseconds))"

definition getOperationName :: "host \<Rightarrow> ExportedSpan \<Rightarrow> string" where
  "getOperationName h span =
     (case type span of
        MODEL_GENERATION \<Rightarrow> ''chat''
      | TOOL_CALL \<Rightarrow> ''execute_tool''
      | MCP_TOOL_CALL \<Rightarrow> ''execute_tool''
      | AGENT_RUN \<Rightarrow> ''invoke_agent''
      | WORKFLOW_RUN \<Rightarrow> ''invoke_workflow''
      | OTHER v \<Rightarrow> toLowerCase (typeValue h (type span)))"

text \<open>\<^verbatim>\<open>name.replace(/[^\p{L}\p{N}._ -]/gu, "")\<close>\<close>

definition sanitizeSpanName :: "host \<Rightarrow> string \<Rightarrow> string" where
  "sanitizeSpanName h nm =
     filter (\<lambda>c. unicodeLetter h c \<or> unicodeNumber h c \<or> c \<in> set ''._ -'') nm"

text \<open>\<^verbatim>\<open>a ?? b\<close>: \<open>b\<close> only when \<open>a\<close> is null or undefined.\<close>

definition orElse :: "'a option \<Rightarrow> 'a \<Rightarrow> 'a" where
  "orElse a b = (case a of Some x \<Rightarrow> x | None \<Rightarrow> b)"

text \<open>The result \<^verbatim>\<open>null\<close> is \<open>None\<close>.\<close>

definition getSpanIdentifier :: "ExportedSpan \<Rightarrow> string option" where
  "getSpanIdentifier span =
     (case type span of
        MODEL_GENERATION \<Rightarrow>
          (let attrs = asModelGenerationAttributes (attributes span)
           in Some (orElse (Option.bind attrs model) ''unknown''))
      | TOOL_CALL \<Rightarrow>
          (let attrs = asToolCallAttributes (attributes span)
           in Some (orElse (Option.bind attrs toolId) ''unknown''))
      | MCP_TOOL_CALL \<Rightarrow>
          (let attrs = asToolCallAttributes (attributes span)
           in Some (orElse (Option.bind attrs toolId) ''unknown''))
      | AGENT_RUN \<Rightarrow>
          (let attrs = asAgentRunAttributes (attributes span)
           in Some (orElse (Option.bind attrs agentName)
                      (orElse (Option.bind attrs agentId) ''unknown'')))
      | WORKFLOW_RUN \<Rightarrow>
          (let attrs = asWorkflowRunAttributes (attributes span)
           in Some (orElse (Option.bind attrs workflowId) ''unknown''))
      | OTHER v \<Rightarrow> None)"

text \<open>\<^verbatim>\<open>if (identifier)\<close> holds for a string that is not empty.\<close>

definition getSpanName :: "host \<Rightarrow> ExportedSpan \<Rightarrow> string" where
  "getSpanName h span =
     (case getSpanIdentifier span of
        Some identifier \<Rightarrow>
          if identifier \<noteq> [] then
            (let operation = getOperationName h span
             in operation @ '' '' @ identifier)
          else sanitizeSpanName h (name span)
      | None \<Rightarrow> sanitizeSpanName h (name span))"

section \<open>Attributes (otel-span.ts, getAttributes)\<close>

text \<open>
  \<^verbatim>\<open>Attributes\<close> is a dictionary from keys to values: the map holds the object's own
  properties. \<^verbatim>\<open>getAttributes\<close> builds it from the object literal \<^verbatim>\<open>{}\<close>, which
  inherits the members of \<^verbatim>\<open>Object.prototype\<close>. An assignment under a fixed key is a map
  update; the reads and the assignment under a computed key, both in the metadata pass,
  take the inherited members into account and are spelled out there.
\<close>

type_synonym Attributes = "string \<rightharpoonup> jsval"

text \<open>\<^verbatim>\<open>typeof x === 'string' ? x : JSON.stringify(x)\<close>\<close>

definition stringifyPayload :: "host \<Rightarrow> jsval \<Rightarrow> string" where
  "stringifyPayload h x = (case x of JStr s \<Rightarrow> s | _ \<Rightarrow> JSON_stringify h x)"

text \<open>Three shapes of guarded assignment that the function repeats.\<close>

definition setIfTruthy :: "string \<Rightarrow> string option \<Rightarrow> Attributes \<Rightarrow> Attributes" where
  \<comment> \<open>\<^verbatim>\<open>if (x) attributes[k] = x\<close>, for a string \<open>x\<close>\<close>
  "setIfTruthy k x attrs =
     (case x of Some s \<Rightarrow> if s \<noteq> [] then attrs(k \<mapsto> JStr s) else attrs | None \<Rightarrow> attrs)"

definition setIfDefined :: "string \<Rightarrow> int option \<Rightarrow> Attributes \<Rightarrow> Attributes" where
  \<comment> \<open>\<^verbatim>\<open>if (x !== undefined) attributes[k] = x\<close>, for a number \<open>x\<close>\<close>
  "setIfDefined k x attrs = (case x of Some n \<Rightarrow> attrs(k \<mapsto> JNum n) | None \<Rightarrow> attrs)"

definition setIfNonzero :: "string \<Rightarrow> int option \<Rightarrow> Attributes \<Rightarrow> Attributes" where
  \<comment> \<open>\<^verbatim>\<open>if (x) attributes[k] = x\<close>, for a number \<open>x\<close>\<close>
  "setIfNonzero k x attrs =
     (case x of Some n \<Rightarrow> if n \<noteq> 0 then attrs(k \<mapsto> JNum n) else attrs | None \<Rightarrow> attrs)"

definition inputAttributes :: "host \<Rightarrow> ExportedSpan \<Rightarrow> Attributes \<Rightarrow> Attributes" where
  "inputAttributes h span attrs =
     (case input span of
        None \<Rightarrow> attrs
      | Some i \<Rightarrow>
          if i = JUndefined then attrs
          else
          (let inputStr = stringifyPayload h i;
               spanType = toLowerCase (typeValue h (type span))
           in if type span = MODEL_GENERATION then
                attrs(''gen_ai.input.messages'' \<mapsto> convertMastraMessagesToGenAIMessages h inputStr)
              else if type span = TOOL_CALL \<or> type span = MCP_TOOL_CALL then
                attrs(''gen_ai.tool.call.arguments'' \<mapsto> JStr inputStr)
              else attrs(''mastra.'' @ spanType @ ''.input'' \<mapsto> JStr inputStr)))"

definition outputAttributes :: "host \<Rightarrow> ExportedSpan \<Rightarrow> Attributes \<Rightarrow> Attributes" where
  "outputAttributes h span attrs =
     (case output_span span of
        None \<Rightarrow> attrs
      | Some out \<Rightarrow>
          if out = JUndefined then attrs
          else
          (let outputStr = stringifyPayload h out;
               spanType = toLowerCase (typeValue h (type span))
           in if type span = MODEL_GENERATION then
                attrs(''gen_ai.output.messages'' \<mapsto> convertMastraMessagesToGenAIMessages h outputStr)
              else if type span = TOOL_CALL \<or> type span = MCP_TOOL_CALL then
                attrs(''gen_ai.tool.call.result'' \<mapsto> JStr outputStr)
              else attrs(''mastra.'' @ spanType @ ''.output'' \<mapsto> JStr outputStr)))"

definition usageAttributes :: "UsageStats \<Rightarrow> Attributes \<Rightarrow> Attributes" where
  "usageAttributes u attrs =
     (let inTokens = (case inputTokens u of Some n \<Rightarrow> Some n | None \<Rightarrow> promptTokens u);
          outTokens = (case outputTokens u of Some n \<Rightarrow> Some n | None \<Rightarrow> completionTokens u);
          attrs = setIfDefined ''gen_ai.usage.input_tokens'' inTokens attrs;
          attrs = setIfDefined ''gen_ai.usage.output_tokens'' outTokens attrs;
          attrs = setIfDefined ''gen_ai.usage.reasoning_tokens'' (reasoningTokens u) attrs;
          attrs = setIfDefined ''gen_ai.usage.cached_input_tokens'' (cachedInputTokens u) attrs
      in attrs)"

definition parameterAttributes :: "host \<Rightarrow> ModelParameters \<Rightarrow> Attributes \<Rightarrow> Attributes" where
  "parameterAttributes h ps attrs =
     (let attrs = setIfDefined ''gen_ai.request.temperature'' (temperature ps) attrs;
          attrs = setIfDefined ''gen_ai.request.max_tokens'' (maxOutputTokens ps) attrs;
          attrs = setIfDefined ''gen_ai.request.top_p'' (topP ps) attrs;
          attrs = setIfDefined ''gen_ai.request.top_k'' (topK ps) attrs;
          attrs = setIfDefined ''gen_ai.request.presence_penalty'' (presencePenalty ps) attrs;
          attrs = setIfDefined ''gen_ai.request.frequency_penalty'' (frequencyPenalty ps) attrs;
          attrs = (case stopSequences ps of
                     Some ss \<Rightarrow> attrs(''gen_ai.request.stop_sequences'' \<mapsto>
                                  JStr (JSON_stringify h (JArr (map JStr ss))))
                   | None \<Rightarrow> attrs);
          attrs = setIfNonzero ''gen_ai.request.seed'' (seed ps) attrs
      in attrs)"

definition modelAttributes :: "host \<Rightarrow> ExportedSpan \<Rightarrow> Attributes \<Rightarrow> Attributes" where
  "modelAttributes h span attrs =
     (if type span = MODEL_GENERATION \<and> attributes span \<noteq> None then
        (case asModelGenerationAttributes (attributes span) of
           None \<Rightarrow> attrs
         | Some modelAttrs \<Rightarrow>
             (let attrs = setIfTruthy ''gen_ai.request.model'' (model modelAttrs) attrs;
                  attrs = (case provider modelAttrs of
                             Some p \<Rightarrow> if p \<noteq> [] then
                                 attrs(''gen_ai.provider.name'' \<mapsto> JStr (normalizeProvider p))
                               else attrs
                           | None \<Rightarrow> attrs);
                  attrs = (case usage modelAttrs of
                             Some u \<Rightarrow> usageAttributes u attrs | None \<Rightarrow> attrs);
                  attrs = (case parameters modelAttrs of
                             Some ps \<Rightarrow> parameterAttributes h ps attrs | None \<Rightarrow> attrs);
                  attrs = (case finishReason modelAttrs of
                             Some r \<Rightarrow> if r \<noteq> [] then
                                 attrs(''gen_ai.response.finish_reasons'' \<mapsto>
                                   JStr (JSON_stringify h (JArr [JStr r])))
                               else attrs
                           | None \<Rightarrow> attrs);
                  attrs = setIfTruthy ''gen_ai.response.model'' (responseModel modelAttrs) attrs;
                  attrs = setIfTruthy ''gen_ai.response.id'' (responseId modelAttrs) attrs;
                  attrs = setIfTruthy ''server.address'' (serverAddress modelAttrs) attrs;
                  attrs = setIfDefined ''server.port'' (serverPort modelAttrs) attrs
              in attrs))
      else attrs)"

definition toolAttributes :: "ExportedSpan \<Rightarrow> Attributes \<Rightarrow> Attributes" where
  "toolAttributes span attrs =
     (if (type span = TOOL_CALL \<or> type span = MCP_TOOL_CALL) \<and> attributes span \<noteq> None then
        (case asToolCallAttributes (attributes span) of
           None \<Rightarrow> attrs
         | Some toolAttrs \<Rightarrow>
             (let attrs = setIfTruthy ''gen_ai.tool.name'' (toolId toolAttrs) attrs
              in if type span = MCP_TOOL_CALL then
                   setIfTruthy ''server.address'' (mcpServer toolAttrs) attrs
                 else setIfTruthy ''gen_ai.tool.description'' (toolDescription toolAttrs) attrs))
      else attrs)"

definition agentAttributes :: "host \<Rightarrow> ExportedSpan \<Rightarrow> Attributes \<Rightarrow> Attributes" where
  "agentAttributes h span attrs =
     (if type span = AGENT_RUN \<and> attributes span \<noteq> None then
        (case asAgentRunAttributes (attributes span) of
           None \<Rightarrow> attrs
         | Some agentAttrs \<Rightarrow>
             (let spanType = toLowerCase (typeValue h (type span));
                  attrs = setIfTruthy ''gen_ai.agent.id'' (agentId agentAttrs) attrs;
                  attrs = setIfTruthy ''gen_ai.agent.name'' (agentName agentAttrs) attrs;
                  attrs = setIfTruthy ''gen_ai.conversation.id'' (conversationId agentAttrs) attrs;
                  attrs = setIfNonzero (''mastra.'' @ spanType @ ''.max_steps'') (maxSteps agentAttrs) attrs;
                  attrs = (case availableTools agentAttrs of
                             Some ts \<Rightarrow> if truthy ts then
                                 attrs(''gen_ai.tool.definitions'' \<mapsto> JStr (JSON_stringify h ts))
                               else attrs
                           | None \<Rightarrow> attrs)
              in attrs(''gen_ai.system_instructions'' \<mapsto>
                   (case instructions agentAttrs of Some s \<Rightarrow> JStr s | None \<Rightarrow> JUndefined))))
      else attrs)"

definition errorAttributes :: "ExportedSpan \<Rightarrow> Attributes \<Rightarrow> Attributes" where
  "errorAttributes span attrs =
     (case errorInfo span of
        None \<Rightarrow> attrs
      | Some ei \<Rightarrow>
          (let attrs = attrs(''error.type'' \<mapsto>
                         JStr (case id_error ei of
                                 Some i \<Rightarrow> if i \<noteq> [] then i else ''unknown''
                               | None \<Rightarrow> ''unknown''));
               attrs = attrs(''error.message'' \<mapsto> JStr (message ei));
               attrs = setIfTruthy ''error.domain'' (domain ei) attrs;
               attrs = setIfTruthy ''error.category'' (category ei) attrs
           in attrs))"

text \<open>
  Everything \<^verbatim>\<open>getAttributes\<close> sets before it reaches the metadata: the operation name,
  the kind tag, input and output, the blocks of the model, tool and agent kinds, the error.
\<close>

definition kindAttributes :: "host \<Rightarrow> ExportedSpan \<Rightarrow> Attributes" where
  "kindAttributes h span =
     (let attrs = Map.empty;
          attrs = attrs(''gen_ai.operation.name'' \<mapsto> JStr (getOperationName h span));
          attrs = attrs(''mastra.span.type'' \<mapsto> JStr (typeValue h (type span)));
          attrs = inputAttributes h span attrs;
          attrs = outputAttributes h span attrs;
          attrs = modelAttributes h span attrs;
          attrs = toolAttributes span attrs;
          attrs = agentAttributes h span attrs;
          attrs = errorAttributes span attrs
      in attrs)"

text \<open>
  A value used as a property key, \<^verbatim>\<open>attributes[value]\<close>: a string is the key itself, a
  boolean is \<^verbatim>\<open>true\<close> or \<^verbatim>\<open>false\<close>, a number is its numeral. What is left to the
  environment (a number beyond \<open>2^53\<close>, an object or an array) does not reach this
  point from the metadata pass, which serialises objects and arrays before.
\<close>

definition toPropertyKey :: "host \<Rightarrow> jsval \<Rightarrow> string" where
  "toPropertyKey h value =
     (case value of
        JStr s \<Rightarrow> s
      | JBool b \<Rightarrow> (if b then ''true'' else ''false'')
      | JNum n \<Rightarrow> (if \<bar>n\<bar> \<le> 2 ^ 53 then numberString n else toStringValue h value)
      | JNull \<Rightarrow> ''null''
      | JUndefined \<Rightarrow> ''undefined''
      | _ \<Rightarrow> toStringValue h value)"

text \<open>
  The names every object inherits from \<^verbatim>\<open>Object.prototype\<close>. Each is a function, or for
  \<^verbatim>\<open>__proto__\<close> the prototype object itself: truthy when read through an object that
  has no own property of that name.
\<close>

definition objectPrototypeMembers :: "string list" where
  "objectPrototypeMembers =
     [''constructor'', ''__defineGetter__'', ''__defineSetter__'', ''hasOwnProperty'',
      ''__lookupGetter__'', ''__lookupSetter__'', ''isPrototypeOf'', ''propertyIsEnumerable'',
      ''toString'', ''valueOf'', ''__proto__'', ''toLocaleString'']"

text \<open>
  \<^verbatim>\<open>!attributes[k]\<close>: the own property if there is one, else the inherited member if
  \<open>k\<close> names one, else \<^verbatim>\<open>undefined\<close>.
\<close>

definition attributeFalsy :: "Attributes \<Rightarrow> string \<Rightarrow> bool" where
  "attributeFalsy attrs k =
     (case attrs k of
        Some x \<Rightarrow> \<not> truthy x
      | None \<Rightarrow> k \<notin> set objectPrototypeMembers)"

text \<open>
  \<^verbatim>\<open>attributes[key] = s\<close> for a computed key and a string \<open>s\<close>: an own property is
  created or overwritten, except under the key \<^verbatim>\<open>__proto__\<close>, where the assignment
  goes to the inherited setter, which ignores a string.
\<close>

definition assignComputed :: "Attributes \<Rightarrow> string \<Rightarrow> string \<Rightarrow> Attributes" where
  "assignComputed attrs key s = (if key = ''__proto__'' then attrs else attrs(key \<mapsto> JStr s))"

text \<open>The body of the \<^verbatim>\<open>forEach\<close> over \<^verbatim>\<open>Object.entries(span.metadata)\<close>.\<close>

definition metadataEntry :: "host \<Rightarrow> Attributes \<Rightarrow> string \<times> jsval \<Rightarrow> Attributes" where
  "metadataEntry h attrs entry =
     (case entry of (k, v) \<Rightarrow>
        if attributeFalsy attrs k then
          (if v = JNull \<or> v = JUndefined then attrs
           else (let value = (if typeofObject v then JStr (JSON_stringify h v) else v);
                     key = ''mastra.metadata.'' @ k
                 in assignComputed attrs (toPropertyKey h value) key))
        else attrs)"

definition metadataAttributes :: "host \<Rightarrow> ExportedSpan \<Rightarrow> Attributes \<Rightarrow> Attributes" where
  "metadataAttributes h span attrs =
     (case metadata span of
        None \<Rightarrow> attrs
      | Some entries \<Rightarrow> foldl (metadataEntry h) attrs entries)"

definition getAttributes :: "host \<Rightarrow> ExportedSpan \<Rightarrow> Attributes" where
  "getAttributes h span = metadataAttributes h span (kindAttributes h span)"

section \<open>The readable span (otel-span.ts, class OtelSpan)\<close>

datatype SpanStatusCode = UNSET | OK | ERROR

datatype TraceFlags = NONE | SAMPLED

record SpanStatus =
  code :: SpanStatusCode
  message :: "string option"

record SpanContext =
  traceId :: string
  spanId :: string
  traceFlags :: TraceFlags
  isRemote :: bool

datatype Link = Link SpanContext Attributes

record TimedEvent =
  name :: string
  attributes :: Attributes
  time :: HrTime
  droppedAttributesCount :: nat

record InstrumentationScope =
  name :: string
  version :: string

text \<open>
  The fields of the class. \<^verbatim>\<open>spanContext\<close> is a function of no argument in the code
  and its result here. The resource is a value of the OpenTelemetry SDK, of a type \<open>'r\<close>
  the exporter never looks into; \<open>None\<close> is the empty object the constructor puts in
  its place when no resource is passed.
\<close>

record 'r OtelSpan =
  name :: string
  kind :: SpanKind
  spanContext :: SpanContext
  parentSpanContext :: "SpanContext option"
  startTime :: HrTime
  endTime :: HrTime
  status :: SpanStatus
  attributes :: Attributes
  links :: "Link list"
  events :: "TimedEvent list"
  duration :: HrTime
  ended :: bool
  resource :: "'r option"
  instrumentationScope :: InstrumentationScope
  droppedAttributesCount :: nat
  droppedEventsCount :: nat
  droppedLinksCount :: nat

text \<open>
  The attributes of the exception event: the object literal with its conditional spread
  \<^verbatim>\<open>...(span.errorInfo.details?.stack && { 'exception.stacktrace': ... })\<close>, which adds the
  key when \<^verbatim>\<open>details.stack\<close> is truthy.
\<close>

definition exceptionAttributes :: "ErrorInfo \<Rightarrow> Attributes" where
  "exceptionAttributes ei =
     (let attrs = [''exception.message'' \<mapsto> JStr (ErrorInfo.message ei),
                   ''exception.type'' \<mapsto> JStr ''Error'']
      in case Option.bind (details ei) (\<lambda>d. d ''stack'') of
           Some stack \<Rightarrow>
             if truthy stack then attrs(''exception.stacktrace'' \<mapsto> stack) else attrs
         | None \<Rightarrow> attrs)"

text \<open>The constructor. A \<^verbatim>\<open>Date\<close> and an \<^verbatim>\<open>errorInfo\<close> object are truthy when present.\<close>

definition newOtelSpan ::
  "host \<Rightarrow> ExportedSpan \<Rightarrow> InstrumentationScope \<Rightarrow> 'r option \<Rightarrow> 'r OtelSpan" where
  "newOtelSpan h span scp res =
     (let start = dateToHrTime (ExportedSpan.startTime span);
          endT = (case ExportedSpan.endTime span of
                   Some e \<Rightarrow> dateToHrTime e | None \<Rightarrow> start);
          dur = (case ExportedSpan.endTime span of
                   Some e \<Rightarrow>
                     (let durationMs = js_minus e (ExportedSpan.startTime span)
                      in (durationMs div 1000, js_rem durationMs 1000 * 1000000))
                 | None \<Rightarrow> (0, 0));
          statusEvents =
            (case errorInfo span of
               Some ei \<Rightarrow>
                 (\<lparr>code = ERROR, message = Some (ErrorInfo.message ei)\<rparr>,
                  [\<lparr>TimedEvent.name = ''exception'',
                    TimedEvent.attributes = exceptionAttributes ei,
                    time = start,
                    TimedEvent.droppedAttributesCount = 0\<rparr>])
             | None \<Rightarrow>
                 if ExportedSpan.endTime span \<noteq> None
                 then (\<lparr>code = OK, message = None\<rparr>, [])
                 else (\<lparr>code = UNSET, message = None\<rparr>, []))
      in \<lparr>OtelSpan.name = getSpanName h span,
          kind = getSpanKind (type span),
          spanContext =
            \<lparr>SpanContext.traceId = ExportedSpan.traceId span,
             spanId = id_span span,
             traceFlags = SAMPLED,
             isRemote = False\<rparr>,
          parentSpanContext =
            (case parentSpanId span of
               Some p \<Rightarrow>
                 if p \<noteq> [] then
                   Some \<lparr>SpanContext.traceId = ExportedSpan.traceId span,
                         spanId = p,
                         traceFlags = SAMPLED,
                         isRemote = False\<rparr>
                 else None
             | None \<Rightarrow> None),
          OtelSpan.startTime = start,
          OtelSpan.endTime = endT,
          status = fst statusEvents,
          OtelSpan.attributes = getAttributes h span,
          links = [],
          events = snd statusEvents,
          duration = dur,
          ended = (ExportedSpan.endTime span \<noteq> None),
          OtelSpan.resource = res,
          instrumentationScope = scp,
          OtelSpan.droppedAttributesCount = 0,
          droppedEventsCount = 0,
          droppedLinksCount = 0\<rparr>)"

section \<open>The converter (span-converter.ts)\<close>

datatype error = Error string

text \<open>
  What the converter calls outside this package: reading the version out of a package's
  manifest (\<^verbatim>\<open>import.meta.resolve\<close>, \<^verbatim>\<open>readFileSync\<close>, \<^verbatim>\<open>JSON.parse\<close>, any of which
  may throw), and \<^verbatim>\<open>resourceFromAttributes\<close> and \<^verbatim>\<open>Resource.merge\<close> of the SDK. Each
  may fail: \<open>Inl\<close> is a thrown error.
\<close>

record 'r sdk =
  readManifestVersion :: "string \<Rightarrow> error + string option"
  resourceFromAttributes :: "(string \<times> jsval) list \<Rightarrow> error + 'r"
  merge :: "'r \<Rightarrow> 'r \<Rightarrow> error + 'r"

text \<open>\<^verbatim>\<open>getPackageVersion\<close>: the \<^verbatim>\<open>catch\<close> turns every failure into \<^verbatim>\<open>undefined\<close>.\<close>

definition getPackageVersion :: "'r sdk \<Rightarrow> string \<Rightarrow> string option" where
  "getPackageVersion sdk pkgName =
     (case readManifestVersion sdk pkgName of Inl e \<Rightarrow> None | Inr v \<Rightarrow> v)"

record OtelExporterConfig =
  resourceAttributes :: "(string \<times> jsval) list option"

record ConverterParams =
  packageName :: string
  serviceName :: "string option"
  config :: "OtelExporterConfig option"

text \<open>
  A promise of the initialisation. While it is pending, the \<^verbatim>\<open>async\<close> body stands at
  one of its two \<^verbatim>\<open>await\<close>s: on the version of the host package, or (holding that
  version) on the version of @mastra/core.
\<close>

datatype initStage = AwaitPackageVersion | AwaitServiceVersion string

datatype promise = Pending initStage | Fulfilled | Rejected error

record 'r SpanConverter =
  params :: ConverterParams
  resource :: "'r option"
  scope :: "InstrumentationScope option"
  initPromise :: "promise option"

definition newSpanConverter :: "ConverterParams \<Rightarrow> 'r SpanConverter" where
  "newSpanConverter ps =
     \<lparr>params = ps, SpanConverter.resource = None, scope = None, initPromise = None\<rparr>"

definition ATTR_SERVICE_NAME :: string where "ATTR_SERVICE_NAME = ''service.name''"
definition ATTR_SERVICE_VERSION :: string where "ATTR_SERVICE_VERSION = ''service.version''"
definition ATTR_TELEMETRY_SDK_NAME :: string where "ATTR_TELEMETRY_SDK_NAME = ''telemetry.sdk.name''"
definition ATTR_TELEMETRY_SDK_VERSION :: string where "ATTR_TELEMETRY_SDK_VERSION = ''telemetry.sdk.version''"
definition ATTR_TELEMETRY_SDK_LANGUAGE :: string where "ATTR_TELEMETRY_SDK_LANGUAGE = ''telemetry.sdk.language''"

text \<open>
  The tail of the \<^verbatim>\<open>async\<close> body, after both versions are known: build the resource,
  merge the configured attributes over it, and hand back the resource and the scope that
  the body stores in the converter. A throw of the SDK leaves the body at once.
\<close>

definition buildContext ::
  "'r sdk \<Rightarrow> ConverterParams \<Rightarrow> string \<Rightarrow> string \<Rightarrow> error + ('r \<times> InstrumentationScope)" where
  "buildContext sdk ps packageVersion serviceVersion =
     (case resourceFromAttributes sdk
             [(ATTR_SERVICE_NAME,
                 JStr (case serviceName ps of
                         Some n \<Rightarrow> if n \<noteq> [] then n else ''mastra-service''
                       | None \<Rightarrow> ''mastra-service'')),
              (ATTR_SERVICE_VERSION, JStr serviceVersion),
              (ATTR_TELEMETRY_SDK_NAME, JStr (packageName ps)),
              (ATTR_TELEMETRY_SDK_VERSION, JStr packageVersion),
              (ATTR_TELEMETRY_SDK_LANGUAGE, JStr ''nodejs'')] of
        Inl e \<Rightarrow> Inl e
      | Inr res \<Rightarrow>
          (case (case Option.bind (config ps) resourceAttributes of
                   Some ra \<Rightarrow>
                     (case resourceFromAttributes sdk ra of
                        Inl e \<Rightarrow> Inl e
                      | Inr overrides \<Rightarrow> merge sdk res overrides)
                 | None \<Rightarrow> Inr res) of
             Inl e \<Rightarrow> Inl e
           | Inr res \<Rightarrow>
               Inr (res, \<lparr>InstrumentationScope.name = packageName ps,
                          version = packageVersion\<rparr>)))"

text \<open>
  The converter at work. JavaScript runs one piece of code at a time and switches only at
  an \<^verbatim>\<open>await\<close>, so a run is a sequence of events: a caller enters \<^verbatim>\<open>convertSpan\<close> and
  runs up to its \<^verbatim>\<open>await this.initIfNeeded()\<close>; the version lookup that the pending
  initialisation awaits completes and the body runs on to its next \<^verbatim>\<open>await\<close> or its
  end; a suspended caller, its promise settled, runs \<^verbatim>\<open>convertSpan\<close> to its end.
  Beside the converter the state holds the suspended callers, the results delivered, and
  two counters for the observer: the packages whose version lookup was invoked, and how
  many times the initialisation body was entered.
\<close>

datatype event = Call ExportedSpan | LookupDone | Resume nat

record 'r system =
  converter :: "'r SpanConverter"
  waiting :: "ExportedSpan list"
  finished :: "(error + 'r OtelSpan) list"
  lookups :: "string list"
  started :: nat

definition boot :: "ConverterParams \<Rightarrow> 'r system" where
  "boot ps =
     \<lparr>converter = newSpanConverter ps, waiting = [], finished = [], lookups = [], started = 0\<rparr>"

text \<open>
  \<^verbatim>\<open>initIfNeeded\<close> up to the point where it returns the promise: with a promise stored,
  nothing happens; otherwise the body is entered, calls the first version lookup and
  suspends, and the promise is stored.
\<close>

definition initIfNeeded :: "'r system \<Rightarrow> 'r system" where
  "initIfNeeded s =
     (case initPromise (converter s) of
        Some p \<Rightarrow> s
      | None \<Rightarrow>
          s\<lparr>converter := (converter s)\<lparr>initPromise := Some (Pending AwaitPackageVersion)\<rparr>,
            lookups := lookups s @ [packageName (params (converter s))],
            started := started s + 1\<rparr>)"

definition callConvertSpan :: "ExportedSpan \<Rightarrow> 'r system \<Rightarrow> 'r system" where
  "callConvertSpan span s = (let s = initIfNeeded s in s\<lparr>waiting := waiting s @ [span]\<rparr>)"

definition lookupDone :: "'r sdk \<Rightarrow> 'r system \<Rightarrow> 'r system" where
  "lookupDone sdk s =
     (let c = converter s; ps = params c
      in case initPromise c of
           Some (Pending AwaitPackageVersion) \<Rightarrow>
             (let packageVersion = orElse (getPackageVersion sdk (packageName ps)) ''unknown''
              in s\<lparr>converter := c\<lparr>initPromise := Some (Pending (AwaitServiceVersion packageVersion))\<rparr>,
                   lookups := lookups s @ [''@mastra/core'']\<rparr>)
         | Some (Pending (AwaitServiceVersion packageVersion)) \<Rightarrow>
             (let serviceVersion = orElse (getPackageVersion sdk ''@mastra/core'') ''unknown''
              in case buildContext sdk ps packageVersion serviceVersion of
                   Inl e \<Rightarrow> s\<lparr>converter := c\<lparr>initPromise := Some (Rejected e)\<rparr>\<rparr>
                 | Inr (res, sc) \<Rightarrow>
                     s\<lparr>converter := c\<lparr>SpanConverter.resource := Some res,
                                       scope := Some sc,
                                       initPromise := Some Fulfilled\<rparr>\<rparr>)
         | _ \<Rightarrow> s)"

text \<open>The rest of \<^verbatim>\<open>convertSpan\<close>, once the awaited promise is fulfilled.\<close>

definition afterInit :: "host \<Rightarrow> 'r SpanConverter \<Rightarrow> ExportedSpan \<Rightarrow> error + 'r OtelSpan" where
  "afterInit h c span =
     (case (SpanConverter.resource c, scope c) of
        (Some res, Some sc) \<Rightarrow> Inr (newOtelSpan h span sc (Some res))
      | _ \<Rightarrow> Inl (Error ''SpanConverter not initialized correctly''))"

definition resume :: "host \<Rightarrow> nat \<Rightarrow> 'r system \<Rightarrow> 'r system" where
  "resume h i s =
     (if i < length (waiting s) then
        (let span = waiting s ! i;
             rest = take i (waiting s) @ drop (Suc i) (waiting s)
         in case initPromise (converter s) of
              Some Fulfilled \<Rightarrow>
                s\<lparr>waiting := rest, finished := finished s @ [afterInit h (converter s) span]\<rparr>
            | Some (Rejected e) \<Rightarrow>
                s\<lparr>waiting := rest, finished := finished s @ [Inl e]\<rparr>
            | _ \<Rightarrow> s)
      else s)"

fun step :: "host \<Rightarrow> 'r sdk \<Rightarrow> 'r system \<Rightarrow> event \<Rightarrow> 'r system" where
  "step h sdk s (Call span) = callConvertSpan span s"
| "step h sdk s LookupDone = lookupDone sdk s"
| "step h sdk s (Resume i) = resume h i s"

definition run :: "host \<Rightarrow> 'r sdk \<Rightarrow> event list \<Rightarrow> 'r system \<Rightarrow> 'r system" where
  "run h sdk evs s = foldl (step h sdk) s evs"

section \<open>A host for running examples\<close>

text \<open>
  An instance of the environment on ASCII text: the enum's string values, the letters and
  digits of ASCII for the two Unicode classes, decimal numerals, and a serialiser for
  values whose strings need no escape other than of the quote and the backslash.
\<close>

fun exampleTypeValue :: "SpanType \<Rightarrow> string" where
  "exampleTypeValue MODEL_GENERATION = ''model_generation''"
| "exampleTypeValue TOOL_CALL = ''tool_call''"
| "exampleTypeValue MCP_TOOL_CALL = ''mcp_tool_call''"
| "exampleTypeValue AGENT_RUN = ''agent_run''"
| "exampleTypeValue WORKFLOW_RUN = ''workflow_run''"
| "exampleTypeValue (OTHER v) = v"

fun joinWith :: "string \<Rightarrow> string list \<Rightarrow> string" where
  "joinWith sep [] = []"
| "joinWith sep [x] = x"
| "joinWith sep (x # y # ys) = x @ sep @ joinWith sep (y # ys)"

definition quoted :: "string \<Rightarrow> string" where
  "quoted s =
     [CHR 0x22] @
     concat (map (\<lambda>c. if c = CHR 0x22 \<or> c = CHR 0x5C then [CHR 0x5C, c] else [c]) s) @
     [CHR 0x22]"

fun jsonText :: "jsval \<Rightarrow> string" where
  "jsonText JUndefined = ''null''"
| "jsonText JNull = ''null''"
| "jsonText (JBool b) = (if b then ''true'' else ''false'')"
| "jsonText (JNum n) = numberString n"
| "jsonText (JStr s) = quoted s"
| "jsonText (JArr xs) = ''['' @ joinWith '','' (map jsonText xs) @ '']''"
| "jsonText (JObj kvs) =
     ''{'' @ joinWith '','' (map (\<lambda>kv. quoted (fst kv) @ '':'' @ jsonText (snd kv))
                                 (filter (\<lambda>kv. snd kv \<noteq> JUndefined) kvs)) @ ''}''"

fun exampleToString :: "jsval \<Rightarrow> string" where
  "exampleToString JUndefined = ''undefined''"
| "exampleToString JNull = ''null''"
| "exampleToString (JBool b) = (if b then ''true'' else ''false'')"
| "exampleToString (JNum n) = numberString n"
| "exampleToString (JStr s) = s"
| "exampleToString (JArr xs) =
     joinWith '','' (map (\<lambda>x. if x = JNull \<or> x = JUndefined then [] else exampleToString x) xs)"
| "exampleToString (JObj kvs) = ''[object Object]''"

definition exampleHost :: host where
  "exampleHost =
     \<lparr>typeValue = exampleTypeValue,
      unicodeLetter = (\<lambda>c. c \<in> set (upperLetters @ lowerLetters)),
      unicodeNumber = (\<lambda>c. c \<in> set digitChars),
      JSON_stringify = jsonText,
      toStringValue = exampleToString,
      convertMastraMessagesToGenAIMessages = JStr\<rparr>"

text \<open>A span with nothing optional in it, to build examples from.\<close>

definition plainSpan :: "SpanType \<Rightarrow> ExportedSpan" where
  "plainSpan t =
     \<lparr>id_span = ''span-1'',
      ExportedSpan.traceId = ''trace-1'',
      parentSpanId = None,
      type = t,
      ExportedSpan.name = ''step: fetch <data>'',
      ExportedSpan.startTime = 1500,
      ExportedSpan.endTime = None,
      input = None,
      output_span = None,
      ExportedSpan.attributes = None,
      errorInfo = None,
      metadata = None\<rparr>"

definition exampleScope :: InstrumentationScope where
  "exampleScope = \<lparr>InstrumentationScope.name = ''@mastra/otel-exporter'', version = ''1.0.0''\<rparr>"

text \<open>The same span with a parent, and with an end 2750 ms after its start.\<close>

definition childSpan :: ExportedSpan where
  "childSpan = (plainSpan AGENT_RUN)\<lparr>parentSpanId := Some ''span-0''\<rparr>"

definition endedSpan :: ExportedSpan where
  "endedSpan = (plainSpan AGENT_RUN)\<lparr>ExportedSpan.endTime := Some 4250\<rparr>"


text \<open>A span whose \<^verbatim>\<open>parentSpanId\<close> is the empty string.\<close>

definition emptyParentSpan :: ExportedSpan where
  "emptyParentSpan = (plainSpan AGENT_RUN)\<lparr>parentSpanId := Some ''''\<rparr>"

text \<open>Spans that failed: one with a stack trace in the details, one whose stack is the empty string.\<close>

definition boom :: ErrorInfo where
  "boom = \<lparr>ErrorInfo.message = ''boom'', id_error = None, domain = None, category = None,
            details = Some [''stack'' \<mapsto> JStr ''Error: boom at run (agent.ts:10)'']\<rparr>"

definition failedSpan :: ExportedSpan where
  "failedSpan = endedSpan\<lparr>errorInfo := Some boom\<rparr>"

definition emptyStackSpan :: ExportedSpan where
  "emptyStackSpan = endedSpan\<lparr>errorInfo := Some (boom\<lparr>details := Some [''stack'' \<mapsto> JStr '''']\<rparr>)\<rparr>"

text \<open>An agent run named Router, and a model generation whose model is the empty string.\<close>

definition routerSpan :: ExportedSpan where
  "routerSpan = (plainSpan AGENT_RUN)\<lparr>ExportedSpan.attributes := Some (AgentRun
      \<lparr>agentId = Some ''agent-7'', agentName = Some ''Router'', conversationId = None,
       maxSteps = None, availableTools = None, instructions = None\<rparr>)\<rparr>"

definition emptyModelSpan :: ExportedSpan where
  "emptyModelSpan = (plainSpan MODEL_GENERATION)\<lparr>ExportedSpan.attributes := Some (ModelGeneration
      \<lparr>model = Some '''', provider = None, usage = None, parameters = None, finishReason = None,
       responseModel = None, responseId = None, serverAddress = None, serverPort = None\<rparr>)\<rparr>"

text \<open>
  An agent run whose metadata holds a value that spells the kind tag's key, and one with
  ordinary metadata: a string, an array, a null, a number and a boolean.
\<close>

definition overwriteSpan :: ExportedSpan where
  "overwriteSpan = (plainSpan AGENT_RUN)\<lparr>metadata := Some [(''note'', JStr ''mastra.span.type'')]\<rparr>"



text \<open>
  An environment for running the converter: resources are lists of attributes, only the
  manifest of @mastra/core can be read, and a merge lets the second resource win. In the
  second environment \<^verbatim>\<open>resourceFromAttributes\<close> throws.
\<close>

definition exampleParams :: ConverterParams where
  "exampleParams = \<lparr>packageName = ''@mastra/otel-exporter'', serviceName = None, config = None\<rparr>"

definition exampleSdk :: "((string \<times> jsval) list) sdk" where
  "exampleSdk =
     \<lparr>readManifestVersion =
        (\<lambda>pkg. if pkg = ''@mastra/core'' then Inr (Some ''1.0.0'') else Inl (Error ''ENOENT'')),
      resourceFromAttributes = Inr,
      merge = (\<lambda>a b. Inr (filter (\<lambda>kv. fst kv \<notin> fst ` set b) a @ b))\<rparr>"

definition failingSdk :: "((string \<times> jsval) list) sdk" where
  "failingSdk = exampleSdk\<lparr>resourceFromAttributes := (\<lambda>attrs. Inl (Error ''invalid attribute''))\<rparr>"

text \<open>
  Two runs. In the first, three callers enter before the initialisation has completed and
  a fourth after it. In the second, one caller enters and resumes after the
  initialisation has settled.
\<close>

definition raceSchedule :: "event list" where
  "raceSchedule =
     [Call childSpan, Call endedSpan, LookupDone, Call routerSpan, LookupDone,
      Resume 1, Resume 0, Resume 0, Call failedSpan, Resume 0]"

definition failSchedule :: "event list" where
  "failSchedule = [Call childSpan, LookupDone, LookupDone, Resume 0]"

text \<open>What holds of the converter and the observer's counters in every state of a run.\<close>

definition consistent :: "host \<Rightarrow> ConverterParams \<Rightarrow> 'r system \<Rightarrow> bool" where
  "consistent h ps s \<longleftrightarrow>
     params (converter s) = ps \<and>
     (case initPromise (converter s) of
        None \<Rightarrow>
          started s = 0 \<and> lookups s = [] \<and> finished s = []
          \<and> SpanConverter.resource (converter s) = None \<and> scope (converter s) = None
      | Some (Pending AwaitPackageVersion) \<Rightarrow>
          started s = 1 \<and> lookups s = [packageName ps] \<and> finished s = []
          \<and> SpanConverter.resource (converter s) = None \<and> scope (converter s) = None
      | Some (Pending (AwaitServiceVersion v)) \<Rightarrow>
          started s = 1 \<and> lookups s = [packageName ps, ''@mastra/core''] \<and> finished s = []
          \<and> SpanConverter.resource (converter s) = None \<and> scope (converter s) = None
      | Some Fulfilled \<Rightarrow>
          started s = 1 \<and> lookups s = [packageName ps, ''@mastra/core'']
          \<and> (\<exists>res sc. SpanConverter.resource (converter s) = Some res
                \<and> scope (converter s) = Some sc
                \<and> (\<forall>x \<in> set (finished s). \<exists>span. x = Inr (newOtelSpan h span sc (Some res))))
      | Some (Rejected e) \<Rightarrow>
          started s = 1 \<and> lookups s = [packageName ps, ''@mastra/core'']
          \<and> SpanConverter.resource (converter s) = None \<and> scope (converter s) = None
          \<and> (\<forall>x \<in> set (finished s). x = Inl e))"

section \<open>Properties\<close>

lemma char_of_literal: "(char_of (n :: nat) = c) = (n mod 256 = of_char c)"
  by (auto simp add: char_of_eq_iff take_bit_eq_mod)











text \<open>
  C10. Every span the constructor builds has no links and no dropped attributes, events
  or links, and each span context it exposes, its own and its parent's when there is one,
  is flagged SAMPLED and is not remote.
\<close>

theorem newOtelSpan_fixed_fields:
  "links (newOtelSpan h span scp res) = []
   \<and> OtelSpan.droppedAttributesCount (newOtelSpan h span scp res) = 0
   \<and> droppedEventsCount (newOtelSpan h span scp res) = 0
   \<and> droppedLinksCount (newOtelSpan h span scp res) = 0
   \<and> traceFlags (spanContext (newOtelSpan h span scp res)) = SAMPLED
   \<and> \<not> isRemote (spanContext (newOtelSpan h span scp res))
   \<and> (\<forall>ctx. parentSpanContext (newOtelSpan h span scp res) = Some ctx
          \<longrightarrow> traceFlags ctx = SAMPLED \<and> \<not> isRemote ctx)"
  by (auto simp add: newOtelSpan_def Let_def split: option.splits if_splits)

theorem newOtelSpan_fixed_fields_witness:
  "(\<exists>ctx. parentSpanContext (newOtelSpan exampleHost childSpan exampleScope (None :: unit option))
            = Some ctx
          \<and> traceFlags ctx = SAMPLED \<and> \<not> isRemote ctx)
   \<and> links (newOtelSpan exampleHost childSpan exampleScope (None :: unit option)) = []"
proof -
  let ?o = "newOtelSpan exampleHost childSpan exampleScope (None :: unit option)"
  have "parentSpanContext ?o \<noteq> None"
    by (simp add: newOtelSpan_def childSpan_def plainSpan_def Let_def)
  then obtain ctx where ctx: "parentSpanContext ?o = Some ctx" by blast
  from newOtelSpan_fixed_fields [of exampleHost childSpan exampleScope "None :: unit option"] ctx
  have "traceFlags ctx = SAMPLED \<and> \<not> isRemote ctx \<and> links ?o = []" by blast
  with ctx show ?thesis by blast
qed






text \<open>
  C1, as the code has it. The span context of the produced span carries the input's
  \<^verbatim>\<open>id\<close> as span id and the input's \<^verbatim>\<open>traceId\<close> as trace id, unchanged. A parent span
  context is present exactly when the input has a \<^verbatim>\<open>parentSpanId\<close> that is not the
  empty string (the constructor tests \<^verbatim>\<open>if (span.parentSpanId)\<close>); when present, its
  span id is the input's \<^verbatim>\<open>parentSpanId\<close> and its trace id the input's \<^verbatim>\<open>traceId\<close>.
\<close>

theorem newOtelSpan_identity:
  "spanId (spanContext (newOtelSpan h span scp res)) = id_span span
   \<and> SpanContext.traceId (spanContext (newOtelSpan h span scp res)) = ExportedSpan.traceId span
   \<and> (parentSpanContext (newOtelSpan h span scp res) \<noteq> None
        \<longleftrightarrow> (\<exists>p. parentSpanId span = Some p \<and> p \<noteq> []))
   \<and> (\<forall>ctx. parentSpanContext (newOtelSpan h span scp res) = Some ctx
          \<longrightarrow> parentSpanId span = Some (spanId ctx)
              \<and> SpanContext.traceId ctx = ExportedSpan.traceId span)"
  by (auto simp add: newOtelSpan_def Let_def split: option.splits if_splits)

theorem newOtelSpan_identity_witness:
  "parentSpanContext (newOtelSpan exampleHost childSpan exampleScope (None :: unit option))
     = Some \<lparr>SpanContext.traceId = ''trace-1'', spanId = ''span-0'',
             traceFlags = SAMPLED, isRemote = False\<rparr>
   \<and> parentSpanId childSpan = Some ''span-0''
   \<and> ExportedSpan.traceId childSpan = ''trace-1''"
proof -
  let ?o = "newOtelSpan exampleHost childSpan exampleScope (None :: unit option)"
  have ctx: "parentSpanContext ?o =
     Some \<lparr>SpanContext.traceId = ''trace-1'', spanId = ''span-0'',
            traceFlags = SAMPLED, isRemote = False\<rparr>"
    by (simp add: newOtelSpan_def childSpan_def plainSpan_def Let_def)
  from newOtelSpan_identity [of exampleHost childSpan exampleScope "None :: unit option"] ctx
  have "parentSpanId childSpan = Some ''span-0'' \<and> ExportedSpan.traceId childSpan = ''trace-1''"
    by simp
  with ctx show ?thesis by simp
qed

text \<open>
  C1 as stated fails where the input has the empty string as \<^verbatim>\<open>parentSpanId\<close>: the
  input has the field, and the produced span has no parent context.
\<close>

theorem parent_context_counterexample:
  "parentSpanId emptyParentSpan = Some ''''
   \<and> parentSpanContext
        (newOtelSpan exampleHost emptyParentSpan exampleScope (None :: unit option)) = None"
  by (simp add: newOtelSpan_def emptyParentSpan_def plainSpan_def Let_def)

lemma exceptionAttributes_keys:
  "exceptionAttributes ei ''exception.message'' = Some (JStr (ErrorInfo.message ei))
   \<and> exceptionAttributes ei ''exception.type'' = Some (JStr ''Error'')
   \<and> exceptionAttributes ei ''exception.stacktrace'' =
        (case Option.bind (details ei) (\<lambda>d. d ''stack'') of
           Some st \<Rightarrow> if truthy st then Some st else None
         | None \<Rightarrow> None)
   \<and> dom (exceptionAttributes ei)
        \<subseteq> {''exception.message'', ''exception.type'', ''exception.stacktrace''}"
  by (auto simp add: exceptionAttributes_def Let_def split: option.splits if_splits)

text \<open>
  C2, as the code has it. The status is decided in order. With \<^verbatim>\<open>errorInfo\<close> present
  (whether or not the span has ended) the status is ERROR with the error's message, and
  the events are exactly one event named "exception", timed at the span's start, whose
  attributes are \<^verbatim>\<open>exception.message\<close>, the literal type \<^verbatim>\<open>Error\<close> and, exactly when
  \<^verbatim>\<open>errorInfo.details.stack\<close> is truthy (a string that is not empty, for one), that
  value as \<^verbatim>\<open>exception.stacktrace\<close>. Without \<^verbatim>\<open>errorInfo\<close>, the status is OK if
  \<^verbatim>\<open>endTime\<close> is present and UNSET otherwise, and there are no events.
\<close>

theorem newOtelSpan_status:
  "(\<forall>ei. errorInfo span = Some ei \<longrightarrow>
        status (newOtelSpan h span scp res) = \<lparr>code = ERROR, message = Some (ErrorInfo.message ei)\<rparr>
      \<and> (\<exists>ev. events (newOtelSpan h span scp res) = [ev]
            \<and> TimedEvent.name ev = ''exception''
            \<and> TimedEvent.attributes ev ''exception.message'' = Some (JStr (ErrorInfo.message ei))
            \<and> TimedEvent.attributes ev ''exception.type'' = Some (JStr ''Error'')
            \<and> (TimedEvent.attributes ev ''exception.stacktrace'' \<noteq> None
                 \<longleftrightarrow> (\<exists>d st. details ei = Some d \<and> d ''stack'' = Some st \<and> truthy st))
            \<and> (\<forall>st. TimedEvent.attributes ev ''exception.stacktrace'' = Some st
                  \<longrightarrow> (\<exists>d. details ei = Some d \<and> d ''stack'' = Some st))
            \<and> dom (TimedEvent.attributes ev)
                 \<subseteq> {''exception.message'', ''exception.type'', ''exception.stacktrace''}
            \<and> time ev = OtelSpan.startTime (newOtelSpan h span scp res)))
   \<and> (errorInfo span = None \<and> ExportedSpan.endTime span \<noteq> None \<longrightarrow>
        status (newOtelSpan h span scp res) = \<lparr>code = OK, message = None\<rparr>
      \<and> events (newOtelSpan h span scp res) = [])
   \<and> (errorInfo span = None \<and> ExportedSpan.endTime span = None \<longrightarrow>
        status (newOtelSpan h span scp res) = \<lparr>code = UNSET, message = None\<rparr>
      \<and> events (newOtelSpan h span scp res) = [])"
proof -
  have err: "\<forall>ei. errorInfo span = Some ei \<longrightarrow>
        status (newOtelSpan h span scp res) = \<lparr>code = ERROR, message = Some (ErrorInfo.message ei)\<rparr>
      \<and> events (newOtelSpan h span scp res) =
          [\<lparr>TimedEvent.name = ''exception'', TimedEvent.attributes = exceptionAttributes ei,
            time = OtelSpan.startTime (newOtelSpan h span scp res),
            TimedEvent.droppedAttributesCount = 0\<rparr>]"
    by (simp add: newOtelSpan_def Let_def)
  have stack: "\<And>ei. (exceptionAttributes ei ''exception.stacktrace'' \<noteq> None
                 \<longleftrightarrow> (\<exists>d st. details ei = Some d \<and> d ''stack'' = Some st \<and> truthy st))
              \<and> (\<forall>st. exceptionAttributes ei ''exception.stacktrace'' = Some st
                  \<longrightarrow> (\<exists>d. details ei = Some d \<and> d ''stack'' = Some st))"
    by (auto simp add: exceptionAttributes_def Let_def Option.bind_eq_Some_conv split: option.splits if_splits Option.bind_splits)
  have ok: "errorInfo span = None \<and> ExportedSpan.endTime span \<noteq> None \<longrightarrow>
        status (newOtelSpan h span scp res) = \<lparr>code = OK, message = None\<rparr>
      \<and> events (newOtelSpan h span scp res) = []"
    by (simp add: newOtelSpan_def Let_def)
  have unset: "errorInfo span = None \<and> ExportedSpan.endTime span = None \<longrightarrow>
        status (newOtelSpan h span scp res) = \<lparr>code = UNSET, message = None\<rparr>
      \<and> events (newOtelSpan h span scp res) = []"
    by (simp add: newOtelSpan_def Let_def)
  show ?thesis
    using err stack ok unset exceptionAttributes_keys
    by (auto)
qed


theorem newOtelSpan_status_witness:
  "errorInfo failedSpan = Some boom
   \<and> status (newOtelSpan exampleHost failedSpan exampleScope (None :: unit option))
        = \<lparr>code = ERROR, message = Some ''boom''\<rparr>
   \<and> (\<exists>ev. events (newOtelSpan exampleHost failedSpan exampleScope (None :: unit option)) = [ev]
          \<and> TimedEvent.name ev = ''exception''
          \<and> TimedEvent.attributes ev ''exception.message'' = Some (JStr ''boom'')
          \<and> TimedEvent.attributes ev ''exception.stacktrace'' \<noteq> None)"
proof -
  have e: "errorInfo failedSpan = Some boom"
    by (simp add: failedSpan_def)
  have st: "\<exists>d st. details boom = Some d \<and> d ''stack'' = Some st \<and> truthy st"
    by (simp add: boom_def)
  have msg: "ErrorInfo.message boom = ''boom''"
    by (simp add: boom_def)
  from newOtelSpan_status [of failedSpan exampleHost exampleScope "None :: unit option"] e
  have "status (newOtelSpan exampleHost failedSpan exampleScope (None :: unit option))
        = \<lparr>code = ERROR, message = Some (ErrorInfo.message boom)\<rparr>
      \<and> (\<exists>ev. events (newOtelSpan exampleHost failedSpan exampleScope (None :: unit option)) = [ev]
            \<and> TimedEvent.name ev = ''exception''
            \<and> TimedEvent.attributes ev ''exception.message'' = Some (JStr (ErrorInfo.message boom))
            \<and> (TimedEvent.attributes ev ''exception.stacktrace'' \<noteq> None
                 \<longleftrightarrow> (\<exists>d st. details boom = Some d \<and> d ''stack'' = Some st \<and> truthy st)))"
    by blast
  with e st msg show ?thesis by auto
qed

text \<open>
  C2 as stated fails where \<^verbatim>\<open>errorInfo.details.stack\<close> is the empty string: a stack
  string is present in the details, and the event has no \<^verbatim>\<open>exception.stacktrace\<close>.
\<close>

theorem stacktrace_counterexample:
  "(\<exists>ei d. errorInfo emptyStackSpan = Some ei \<and> details ei = Some d \<and> d ''stack'' = Some (JStr ''''))
   \<and> map (\<lambda>ev. TimedEvent.attributes ev ''exception.stacktrace'')
        (events (newOtelSpan exampleHost emptyStackSpan exampleScope (None :: unit option)))
      = [None]"
  by (simp add: newOtelSpan_def emptyStackSpan_def endedSpan_def plainSpan_def boom_def
        exceptionAttributes_def Let_def)

text \<open>
  C6, as the code has it. A span of a kind with a natural identifier (the model for
  MODEL_GENERATION, the tool id for TOOL_CALL and MCP_TOOL_CALL, the agent name or, when
  there is no agent name, the agent id for AGENT_RUN, the workflow id for WORKFLOW_RUN,
  each "unknown" when absent) whose identifier is not the empty string is named
  "<operation> <identifier>", with the verb chat, execute_tool, invoke_agent or
  invoke_workflow of its kind. When the identifier is the empty string, and for every
  other kind, the name is the original name with every character dropped that is
  not of the class of letters, not of the class of numbers, and none of '.', '_',
  space, '-'. An AGENT_RUN span with agentName "Router" is named "invoke_agent Router",
  and one with neither name nor id "invoke_agent unknown".
\<close>

theorem getSpanName_by_kind:
  "(\<forall>i. getSpanIdentifier span = Some i \<and> i \<noteq> []
        \<longrightarrow> getSpanName h span = getOperationName h span @ '' '' @ i)
   \<and> (getSpanIdentifier span = Some [] \<or> getSpanIdentifier span = None
        \<longrightarrow> getSpanName h span =
              filter (\<lambda>c. unicodeLetter h c \<or> unicodeNumber h c
                         \<or> c \<in> {CHR ''.'', CHR ''_'', CHR '' '', CHR ''-''}) (ExportedSpan.name span))
   \<and> (type span = MODEL_GENERATION
        \<longrightarrow> getOperationName h span = ''chat''
          \<and> getSpanIdentifier span =
              Some (case ExportedSpan.attributes span of
                      Some (ModelGeneration a) \<Rightarrow> (case model a of Some m \<Rightarrow> m | None \<Rightarrow> ''unknown'')
                    | _ \<Rightarrow> ''unknown''))
   \<and> (type span = TOOL_CALL \<or> type span = MCP_TOOL_CALL
        \<longrightarrow> getOperationName h span = ''execute_tool''
          \<and> getSpanIdentifier span =
              Some (case ExportedSpan.attributes span of
                      Some (ToolCall a) \<Rightarrow> (case toolId a of Some t \<Rightarrow> t | None \<Rightarrow> ''unknown'')
                    | _ \<Rightarrow> ''unknown''))
   \<and> (type span = AGENT_RUN
        \<longrightarrow> getOperationName h span = ''invoke_agent''
          \<and> getSpanIdentifier span =
              Some (case ExportedSpan.attributes span of
                      Some (AgentRun a) \<Rightarrow>
                        (case agentName a of
                           Some n \<Rightarrow> n
                         | None \<Rightarrow> (case agentId a of Some i \<Rightarrow> i | None \<Rightarrow> ''unknown''))
                    | _ \<Rightarrow> ''unknown''))
   \<and> (type span = WORKFLOW_RUN
        \<longrightarrow> getOperationName h span = ''invoke_workflow''
          \<and> getSpanIdentifier span =
              Some (case ExportedSpan.attributes span of
                      Some (WorkflowRun a) \<Rightarrow> (case workflowId a of Some w \<Rightarrow> w | None \<Rightarrow> ''unknown'')
                    | _ \<Rightarrow> ''unknown''))
   \<and> (\<forall>v. type span = OTHER v \<longrightarrow> getSpanIdentifier span = None)
   \<and> (\<forall>a. type span = AGENT_RUN \<and> ExportedSpan.attributes span = Some (AgentRun a)
            \<and> agentName a = Some ''Router''
        \<longrightarrow> getSpanName h span = ''invoke_agent Router'')
   \<and> (\<forall>a. type span = AGENT_RUN \<and> ExportedSpan.attributes span = Some (AgentRun a)
            \<and> agentName a = None \<and> agentId a = None
        \<longrightarrow> getSpanName h span = ''invoke_agent unknown'')"
proof -
  have name1: "\<forall>i. getSpanIdentifier span = Some i \<and> i \<noteq> []
        \<longrightarrow> getSpanName h span = getOperationName h span @ '' '' @ i"
    by (simp add: getSpanName_def Let_def)
  have name2: "getSpanIdentifier span = Some [] \<or> getSpanIdentifier span = None
        \<longrightarrow> getSpanName h span =
              filter (\<lambda>c. unicodeLetter h c \<or> unicodeNumber h c
                         \<or> c \<in> {CHR ''.'', CHR ''_'', CHR '' '', CHR ''-''}) (ExportedSpan.name span)"
    by (auto simp add: getSpanName_def sanitizeSpanName_def Let_def)
  have m: "type span = MODEL_GENERATION
        \<longrightarrow> getOperationName h span = ''chat''
          \<and> getSpanIdentifier span =
              Some (case ExportedSpan.attributes span of
                      Some (ModelGeneration a) \<Rightarrow> (case model a of Some m \<Rightarrow> m | None \<Rightarrow> ''unknown'')
                    | _ \<Rightarrow> ''unknown'')"
    by (auto simp add: getOperationName_def getSpanIdentifier_def orElse_def Let_def
          split: option.splits SpanAttributes.splits)
  have t: "type span = TOOL_CALL \<or> type span = MCP_TOOL_CALL
        \<longrightarrow> getOperationName h span = ''execute_tool''
          \<and> getSpanIdentifier span =
              Some (case ExportedSpan.attributes span of
                      Some (ToolCall a) \<Rightarrow> (case toolId a of Some t \<Rightarrow> t | None \<Rightarrow> ''unknown'')
                    | _ \<Rightarrow> ''unknown'')"
    by (auto simp add: getOperationName_def getSpanIdentifier_def orElse_def Let_def
          split: option.splits SpanAttributes.splits)
  have a: "type span = AGENT_RUN
        \<longrightarrow> getOperationName h span = ''invoke_agent''
          \<and> getSpanIdentifier span =
              Some (case ExportedSpan.attributes span of
                      Some (AgentRun a) \<Rightarrow>
                        (case agentName a of
                           Some n \<Rightarrow> n
                         | None \<Rightarrow> (case agentId a of Some i \<Rightarrow> i | None \<Rightarrow> ''unknown''))
                    | _ \<Rightarrow> ''unknown'')"
    by (auto simp add: getOperationName_def getSpanIdentifier_def orElse_def Let_def
          split: option.splits SpanAttributes.splits)
  have w: "type span = WORKFLOW_RUN
        \<longrightarrow> getOperationName h span = ''invoke_workflow''
          \<and> getSpanIdentifier span =
              Some (case ExportedSpan.attributes span of
                      Some (WorkflowRun a) \<Rightarrow> (case workflowId a of Some w \<Rightarrow> w | None \<Rightarrow> ''unknown'')
                    | _ \<Rightarrow> ''unknown'')"
    by (auto simp add: getOperationName_def getSpanIdentifier_def orElse_def Let_def
          split: option.splits SpanAttributes.splits)
  have o: "\<forall>v. type span = OTHER v \<longrightarrow> getSpanIdentifier span = None"
    by (simp add: getSpanIdentifier_def)
  have r: "\<forall>a. type span = AGENT_RUN \<and> ExportedSpan.attributes span = Some (AgentRun a)
            \<and> agentName a = Some ''Router''
        \<longrightarrow> getSpanName h span = ''invoke_agent Router''"
    by (simp add: getSpanName_def getOperationName_def getSpanIdentifier_def orElse_def Let_def)
  have u: "\<forall>a. type span = AGENT_RUN \<and> ExportedSpan.attributes span = Some (AgentRun a)
            \<and> agentName a = None \<and> agentId a = None
        \<longrightarrow> getSpanName h span = ''invoke_agent unknown''"
    by (simp add: getSpanName_def getOperationName_def getSpanIdentifier_def orElse_def Let_def)
  from name1 name2 m t a w o r u show ?thesis by blast
qed

theorem getSpanName_by_kind_witness:
  "type routerSpan = AGENT_RUN
   \<and> (\<exists>a. ExportedSpan.attributes routerSpan = Some (AgentRun a) \<and> agentName a = Some ''Router'')
   \<and> getSpanName exampleHost routerSpan = ''invoke_agent Router''"
proof -
  have t: "type routerSpan = AGENT_RUN"
    by (simp add: routerSpan_def plainSpan_def)
  have a: "\<exists>a. ExportedSpan.attributes routerSpan = Some (AgentRun a) \<and> agentName a = Some ''Router''"
    by (simp add: routerSpan_def)
  from getSpanName_by_kind [of routerSpan exampleHost] t a
  have "getSpanName exampleHost routerSpan = ''invoke_agent Router''"
    by blast
  with t a show ?thesis by blast
qed

text \<open>
  C6 as stated fails where the identifier is present and empty: a MODEL_GENERATION span
  whose model is the empty string is not named "chat " followed by its identifier; it
  gets the stripped original name.
\<close>

theorem empty_identifier_counterexample:
  "type emptyModelSpan = MODEL_GENERATION
   \<and> getSpanIdentifier emptyModelSpan = Some ''''
   \<and> getSpanName exampleHost emptyModelSpan = ''step fetch data''
   \<and> getSpanName exampleHost emptyModelSpan \<noteq> ''chat '' @ ''''"
  by (simp add: emptyModelSpan_def plainSpan_def getSpanName_def getSpanIdentifier_def
       sanitizeSpanName_def exampleHost_def orElse_def Let_def upperLetters_def lowerLetters_def
       digitChars_def)









lemmas attr_defs = kindAttributes_def inputAttributes_def outputAttributes_def modelAttributes_def
  toolAttributes_def agentAttributes_def errorAttributes_def


text \<open>
  C8. The claim is that the metadata pass leaves every attribute set before it unchanged.
  The code assigns \<^verbatim>\<open>attributes[value] = key\<close>, with key and value exchanged, so a
  metadata value that spells an existing attribute key overwrites that attribute: for an
  agent run with metadata \<^verbatim>\<open>{ note: "mastra.span.type" }\<close> the kind tag, set to the
  span type before the pass, is \<^verbatim>\<open>"mastra.metadata.note"\<close> after it.
\<close>

theorem metadata_overwrite:
  "kindAttributes exampleHost overwriteSpan ''mastra.span.type'' = Some (JStr ''agent_run'')
   \<and> getAttributes exampleHost overwriteSpan ''mastra.span.type'' = Some (JStr ''mastra.metadata.note'')"
  by (simp add: getAttributes_def metadataAttributes_def metadataEntry_def attributeFalsy_def
       assignComputed_def objectPrototypeMembers_def toPropertyKey_def overwriteSpan_def
       plainSpan_def attr_defs getOperationName_def exampleHost_def Let_def)







lemma consistent_boot: "consistent h ps (boot ps)"
  by (simp add: consistent_def boot_def newSpanConverter_def)

lemma consistent_call: "consistent h ps s \<Longrightarrow> consistent h ps (callConvertSpan span s)"
  by (auto simp add: consistent_def callConvertSpan_def initIfNeeded_def Let_def
        split: option.splits promise.splits initStage.splits)

lemma consistent_lookupDone: "consistent h ps s \<Longrightarrow> consistent h ps (lookupDone sdk s)"
  by (auto simp add: consistent_def lookupDone_def Let_def
        split: option.splits promise.splits initStage.splits sum.splits)

lemma consistent_resume: "consistent h ps s \<Longrightarrow> consistent h ps (resume h i s)"
  by (auto simp add: consistent_def resume_def afterInit_def Let_def
        split: option.splits promise.splits initStage.splits)

lemma consistent_step: "consistent h ps s \<Longrightarrow> consistent h ps (step h sdk s ev)"
  by (cases ev) (simp_all add: consistent_call consistent_lookupDone consistent_resume)

lemma consistent_run: "consistent h ps s \<Longrightarrow> consistent h ps (run h sdk evs s)"
  unfolding run_def by (induction evs arbitrary: s) (simp_all add: consistent_step)

lemma consistent_reachable: "consistent h ps (run h sdk evs (boot ps))"
  by (rule consistent_run) (rule consistent_boot)


lemma newOtelSpan_context:
  "OtelSpan.resource (newOtelSpan h span sc res) = res
   \<and> instrumentationScope (newOtelSpan h span sc res) = sc"
  by (simp add: newOtelSpan_def Let_def)

lemma consistent_finished:
  assumes "consistent h ps s" and "Inr a \<in> set (finished s)"
  shows "OtelSpan.resource a = SpanConverter.resource (converter s)
       \<and> Some (instrumentationScope a) = scope (converter s)"
proof (cases "initPromise (converter s)")
  case None
  with assms show ?thesis by (simp add: consistent_def)
next
  case (Some p)
  show ?thesis
  proof (cases p)
    case (Pending st)
    with Some assms show ?thesis
      by (cases st) (simp_all add: consistent_def)
  next
    case Fulfilled
    with Some assms obtain res sc where
      ctx: "SpanConverter.resource (converter s) = Some res" "scope (converter s) = Some sc"
      and fin: "\<forall>x \<in> set (finished s). \<exists>span. x = Inr (newOtelSpan h span sc (Some res))"
      by (auto simp add: consistent_def)
    from fin assms(2) obtain span where "a = newOtelSpan h span sc (Some res)"
      by blast
    with ctx show ?thesis
      by (simp add: newOtelSpan_context)
  next
    case (Rejected e)
    with Some assms show ?thesis
      by (auto simp add: consistent_def)
  qed
qed

lemma run_Nil: "run h sdk [] s = s"
  by (simp add: run_def)

lemma run_Cons: "run h sdk (ev # evs) s = run h sdk evs (step h sdk s ev)"
  by (simp add: run_def)

lemma run_append: "run h sdk (evs @ evs') s = run h sdk evs' (run h sdk evs s)"
  by (simp add: run_def)

lemma call_sets_promise: "initPromise (converter (callConvertSpan span s)) \<noteq> None"
  by (simp add: callConvertSpan_def initIfNeeded_def Let_def split: option.splits)

lemma step_keeps_promise:
  "initPromise (converter s) \<noteq> None \<Longrightarrow> initPromise (converter (step h sdk s ev)) \<noteq> None"
  by (cases ev)
     (auto simp add: callConvertSpan_def initIfNeeded_def lookupDone_def resume_def Let_def
        split: option.splits promise.splits initStage.splits sum.splits)

lemma run_keeps_promise:
  "initPromise (converter s) \<noteq> None \<Longrightarrow> initPromise (converter (run h sdk evs s)) \<noteq> None"
proof (induction evs arbitrary: s)
  case Nil
  then show ?case by (simp add: run_Nil)
next
  case (Cons ev evs)
  from step_keeps_promise [OF Cons.prems]
  have "initPromise (converter (step h sdk s ev)) \<noteq> None" .
  from Cons.IH [OF this] show ?case by (simp add: run_Cons)
qed

lemma call_in_run_sets_promise:
  "Call span \<in> set evs \<Longrightarrow> initPromise (converter (run h sdk evs s)) \<noteq> None"
proof (induction evs arbitrary: s)
  case Nil
  then show ?case by simp
next
  case (Cons ev evs)
  show ?case
  proof (cases "ev = Call span")
    case True
    then have "initPromise (converter (step h sdk s ev)) \<noteq> None"
      by (simp add: call_sets_promise)
    from run_keeps_promise [OF this] show ?thesis
      by (simp add: run_Cons)
  next
    case False
    with Cons.prems have "Call span \<in> set evs" by simp
    from Cons.IH [OF this] show ?thesis
      by (simp add: run_Cons)
  qed
qed

lemma step_keeps_rejected:
  "initPromise (converter s) = Some (Rejected e)
   \<Longrightarrow> initPromise (converter (step h sdk s ev)) = Some (Rejected e)
       \<and> started (step h sdk s ev) = started s
       \<and> lookups (step h sdk s ev) = lookups s"
  by (cases ev)
     (auto simp add: callConvertSpan_def initIfNeeded_def lookupDone_def resume_def Let_def)

lemma run_keeps_rejected:
  "initPromise (converter s) = Some (Rejected e)
   \<Longrightarrow> initPromise (converter (run h sdk evs s)) = Some (Rejected e)
       \<and> started (run h sdk evs s) = started s
       \<and> lookups (run h sdk evs s) = lookups s"
proof (induction evs arbitrary: s)
  case Nil
  then show ?case by (simp add: run_Nil)
next
  case (Cons ev evs)
  from step_keeps_rejected [OF Cons.prems, of h sdk ev]
  have st: "initPromise (converter (step h sdk s ev)) = Some (Rejected e)"
    and eq: "started (step h sdk s ev) = started s" "lookups (step h sdk s ev) = lookups s"
    by simp_all
  from Cons.IH [OF st] eq show ?case
    by (simp add: run_Cons)
qed

lemmas run_defs = run_def callConvertSpan_def initIfNeeded_def lookupDone_def resume_def
  afterInit_def boot_def newSpanConverter_def buildContext_def getPackageVersion_def orElse_def

text \<open>
  C3. In every run of a converter, whatever the order of calls, completions and
  resumptions: the initialisation body is entered at most once, and exactly once as soon
  as there has been a call; the version lookups invoked are those of one initialisation,
  the host package and then @mastra/core, each at most once; a call that finds a promise
  stored starts nothing and only joins the callers waiting on that promise; and every
  span produced carries the resource and the scope stored in the converter, so any two
  produced spans carry the same.
\<close>

theorem convertSpan_single_flight:
  fixes h :: host and sdk :: "'r sdk" and evs :: "event list" and ps :: ConverterParams
  defines "s \<equiv> run h sdk evs (boot ps)"
  shows "started s \<le> 1
   \<and> ((\<exists>span. Call span \<in> set evs) \<longrightarrow> started s = 1)
   \<and> (lookups s = [] \<or> lookups s = [packageName ps]
        \<or> lookups s = [packageName ps, ''@mastra/core''])
   \<and> (\<forall>span. initPromise (converter s) \<noteq> None \<longrightarrow>
          initPromise (converter (step h sdk s (Call span))) = initPromise (converter s)
        \<and> started (step h sdk s (Call span)) = started s
        \<and> lookups (step h sdk s (Call span)) = lookups s
        \<and> waiting (step h sdk s (Call span)) = waiting s @ [span])
   \<and> (\<forall>a. Inr a \<in> set (finished s) \<longrightarrow>
          OtelSpan.resource a = SpanConverter.resource (converter s)
        \<and> Some (instrumentationScope a) = scope (converter s))
   \<and> (\<forall>a b. Inr a \<in> set (finished s) \<and> Inr b \<in> set (finished s) \<longrightarrow>
          OtelSpan.resource a = OtelSpan.resource b
        \<and> instrumentationScope a = instrumentationScope b)"
proof -
  have inv: "consistent h ps s"
    unfolding s_def by (rule consistent_reachable)
  have once: "started s \<le> 1"
    using inv
    by (auto simp add: consistent_def split: option.splits promise.splits initStage.splits)
  have called: "(\<exists>span. Call span \<in> set evs) \<longrightarrow> started s = 1"
  proof
    assume "\<exists>span. Call span \<in> set evs"
    then obtain span where "Call span \<in> set evs" by blast
    from call_in_run_sets_promise [OF this]
    have "initPromise (converter s) \<noteq> None"
      unfolding s_def .
    with inv show "started s = 1"
      by (auto simp add: consistent_def split: option.splits promise.splits initStage.splits)
  qed
  have log: "lookups s = [] \<or> lookups s = [packageName ps]
        \<or> lookups s = [packageName ps, ''@mastra/core'']"
    using inv
    by (auto simp add: consistent_def split: option.splits promise.splits initStage.splits)
  have join: "\<forall>span. initPromise (converter s) \<noteq> None \<longrightarrow>
          initPromise (converter (step h sdk s (Call span))) = initPromise (converter s)
        \<and> started (step h sdk s (Call span)) = started s
        \<and> lookups (step h sdk s (Call span)) = lookups s
        \<and> waiting (step h sdk s (Call span)) = waiting s @ [span]"
    by (auto simp add: callConvertSpan_def initIfNeeded_def Let_def)
  have same: "\<forall>a. Inr a \<in> set (finished s) \<longrightarrow>
          OtelSpan.resource a = SpanConverter.resource (converter s)
        \<and> Some (instrumentationScope a) = scope (converter s)"
  proof (intro allI impI)
    fix a
    assume a: "Inr a \<in> set (finished s)"
    with inv consistent_finished [of h ps s a]
    show "OtelSpan.resource a = SpanConverter.resource (converter s)
        \<and> Some (instrumentationScope a) = scope (converter s)"
      by blast
  qed
  from same have pair: "\<forall>a b. Inr a \<in> set (finished s) \<and> Inr b \<in> set (finished s) \<longrightarrow>
          OtelSpan.resource a = OtelSpan.resource b
        \<and> instrumentationScope a = instrumentationScope b"
    by (metis option.inject)
  from once called log join same pair show ?thesis by blast
qed

theorem convertSpan_single_flight_witness:
  "Call childSpan \<in> set raceSchedule
   \<and> started (run exampleHost exampleSdk raceSchedule (boot exampleParams)) = 1
   \<and> lookups (run exampleHost exampleSdk raceSchedule (boot exampleParams))
        = [''@mastra/otel-exporter'', ''@mastra/core'']
   \<and> length (finished (run exampleHost exampleSdk raceSchedule (boot exampleParams))) = 4
   \<and> (\<exists>a. Inr a \<in> set (finished (run exampleHost exampleSdk raceSchedule (boot exampleParams)))
          \<and> OtelSpan.resource a
               = SpanConverter.resource
                   (converter (run exampleHost exampleSdk raceSchedule (boot exampleParams))))"
proof -
  let ?s = "run exampleHost exampleSdk raceSchedule (boot exampleParams)"
  have called: "Call childSpan \<in> set raceSchedule"
    by (simp add: raceSchedule_def)
  have log: "lookups ?s = [''@mastra/otel-exporter'', ''@mastra/core''] \<and> length (finished ?s) = 4"
    by (simp add: run_defs raceSchedule_def exampleSdk_def exampleParams_def Let_def)
  have "map isl (finished ?s) = [False, False, False, False]"
    by (simp add: run_defs raceSchedule_def exampleSdk_def exampleParams_def Let_def)
  then obtain x xs where "finished ?s = x # xs" and "\<not> isl x"
    by (cases "finished ?s") auto
  then obtain a where produced: "Inr a \<in> set (finished ?s)"
    by (cases x) auto
  note all = convertSpan_single_flight
    [where h = exampleHost and sdk = exampleSdk and evs = raceSchedule and ps = exampleParams]
  from all called have once: "started ?s = 1"
    by blast
  from all produced
  have "OtelSpan.resource a = SpanConverter.resource (converter ?s)"
    by blast
  with called once log produced show ?thesis
    by blast
qed

text \<open>
  C4, as the code has it. When the initialisation has thrown, its promise is rejected and
  stays stored: no resource and no scope is stored, every call that awaited it has
  failed and every call still waiting fails with the error thrown, and from then on,
  whatever happens, the promise stays the rejected one, the initialisation body has been
  entered once and is not entered again, no further version lookup is made, nothing is
  cached, and every call fails with the same error.
\<close>

theorem rejected_initialisation_is_kept:
  fixes h :: host and sdk :: "'r sdk" and evs :: "event list" and ps :: ConverterParams
  defines "s \<equiv> run h sdk evs (boot ps)"
  assumes rejected: "initPromise (converter s) = Some (Rejected e)"
  shows "SpanConverter.resource (converter s) = None \<and> scope (converter s) = None
   \<and> (\<forall>x \<in> set (finished s). x = Inl e)
   \<and> (\<forall>i < length (waiting s). finished (step h sdk s (Resume i)) = finished s @ [Inl e])
   \<and> (\<forall>evs'. initPromise (converter (run h sdk evs' s)) = Some (Rejected e)
          \<and> started (run h sdk evs' s) = 1
          \<and> lookups (run h sdk evs' s) = [packageName ps, ''@mastra/core'']
          \<and> SpanConverter.resource (converter (run h sdk evs' s)) = None
          \<and> scope (converter (run h sdk evs' s)) = None
          \<and> (\<forall>x \<in> set (finished (run h sdk evs' s)). x = Inl e))"
proof -
  have now: "SpanConverter.resource (converter s) = None \<and> scope (converter s) = None
     \<and> (\<forall>x \<in> set (finished s). x = Inl e)"
    using consistent_reachable [of h ps sdk evs] rejected
    by (simp add: consistent_def s_def)
  have fails: "\<forall>i < length (waiting s). finished (step h sdk s (Resume i)) = finished s @ [Inl e]"
    using rejected by (simp add: resume_def Let_def)
  have later: "\<forall>evs'. initPromise (converter (run h sdk evs' s)) = Some (Rejected e)
          \<and> started (run h sdk evs' s) = 1
          \<and> lookups (run h sdk evs' s) = [packageName ps, ''@mastra/core'']
          \<and> SpanConverter.resource (converter (run h sdk evs' s)) = None
          \<and> scope (converter (run h sdk evs' s)) = None
          \<and> (\<forall>x \<in> set (finished (run h sdk evs' s)). x = Inl e)"
  proof
    fix evs'
    have r: "initPromise (converter (run h sdk evs' s)) = Some (Rejected e)"
      using run_keeps_rejected [OF rejected] by simp
    have "consistent h ps (run h sdk (evs @ evs') (boot ps))"
      by (rule consistent_reachable)
    then have "consistent h ps (run h sdk evs' s)"
      by (simp add: run_append s_def)
    with r show "initPromise (converter (run h sdk evs' s)) = Some (Rejected e)
          \<and> started (run h sdk evs' s) = 1
          \<and> lookups (run h sdk evs' s) = [packageName ps, ''@mastra/core'']
          \<and> SpanConverter.resource (converter (run h sdk evs' s)) = None
          \<and> scope (converter (run h sdk evs' s)) = None
          \<and> (\<forall>x \<in> set (finished (run h sdk evs' s)). x = Inl e)"
      by (simp add: consistent_def)
  qed
  from now fails later show ?thesis by blast
qed


theorem rejected_initialisation_is_kept_witness:
  "initPromise (converter (run exampleHost failingSdk failSchedule (boot exampleParams)))
     = Some (Rejected (Error ''invalid attribute''))
   \<and> SpanConverter.resource (converter (run exampleHost failingSdk failSchedule (boot exampleParams)))
     = None
   \<and> finished (run exampleHost failingSdk failSchedule (boot exampleParams))
     = [Inl (Error ''invalid attribute'')]
   \<and> started (run exampleHost failingSdk [Call endedSpan, Resume 0]
                (run exampleHost failingSdk failSchedule (boot exampleParams))) = 1"
proof -
  let ?s = "run exampleHost failingSdk failSchedule (boot exampleParams)"
  have rejected: "initPromise (converter ?s) = Some (Rejected (Error ''invalid attribute''))"
    by (simp add: run_defs failSchedule_def failingSdk_def exampleSdk_def exampleParams_def Let_def)
  have one: "length (finished ?s) = 1"
    by (simp add: run_defs failSchedule_def failingSdk_def exampleSdk_def exampleParams_def Let_def)
  note kept = rejected_initialisation_is_kept
    [where h = exampleHost and sdk = failingSdk and evs = failSchedule and ps = exampleParams,
     OF rejected]
  from kept have none: "SpanConverter.resource (converter ?s) = None"
    by blast
  from kept have "\<forall>x \<in> set (finished ?s). x = Inl (Error ''invalid attribute'')"
    by blast
  with one have failed: "finished ?s = [Inl (Error ''invalid attribute'')]"
    by (cases "finished ?s") auto
  from kept have "started (run exampleHost failingSdk [Call endedSpan, Resume 0] ?s) = 1"
    by blast
  with rejected none failed show ?thesis
    by blast
qed

text \<open>
  C4 as stated fails after a failed initialisation: the next call to \<^verbatim>\<open>convertSpan\<close>
  finds the rejected promise stored and returns it. The initialisation body is not
  entered a second time, no version lookup is made, and the call fails with the error of
  the first attempt.
\<close>

theorem no_retry_counterexample:
  "initPromise (converter (run exampleHost failingSdk failSchedule (boot exampleParams)))
     = Some (Rejected (Error ''invalid attribute''))
   \<and> started (run exampleHost failingSdk failSchedule (boot exampleParams)) = 1
   \<and> started (step exampleHost failingSdk
                (run exampleHost failingSdk failSchedule (boot exampleParams))
                (Call endedSpan)) = 1
   \<and> lookups (step exampleHost failingSdk
                (run exampleHost failingSdk failSchedule (boot exampleParams))
                (Call endedSpan))
       = lookups (run exampleHost failingSdk failSchedule (boot exampleParams))
   \<and> initPromise (converter (step exampleHost failingSdk
                (run exampleHost failingSdk failSchedule (boot exampleParams))
                (Call endedSpan)))
       = Some (Rejected (Error ''invalid attribute''))
   \<and> finished (run exampleHost failingSdk (failSchedule @ [Call endedSpan, Resume 0])
                 (boot exampleParams))
       = [Inl (Error ''invalid attribute''), Inl (Error ''invalid attribute'')]"
  by (simp add: run_defs failSchedule_def failingSdk_def exampleSdk_def exampleParams_def Let_def)

end
